theory Spec2Isabelle
  imports Complex_Main "HOL-Library.Log_Nat"
begin

section \<open>Python values used by timestomp.py\<close>

text \<open>
  The exceptions that the program and the library calls it makes can raise.  The
  message strings are dropped.  \<open>SystemExit n\<close> is what \<open>sys.exit(n)\<close> raises;
  \<open>Exception\<close> is the plain \<open>raise Exception("Invalid data")\<close> of the channel;
  \<open>UnicodeDecodeError\<close> is what \<open>bytes.decode("UTF-8")\<close> raises.
\<close>

datatype error =
    Exception
  | ValueError
  | UnicodeDecodeError
  | TypeError
  | IndexError
  | OSError
  | OverflowError
  | CalledProcessError int
  | SystemExit int

text \<open>
  A \<open>datetime.datetime\<close> object is an instant on the proleptic Gregorian calendar with
  microsecond resolution, with or without an attached UTC offset.  The instant is kept
  as the number of microseconds since 0001-01-01 00:00:00 (the calendar fields are
  computed from it on demand); \<open>tzinfo = None\<close> is a naive object, \<open>Some off\<close> an aware
  one with utcoffset \<open>off\<close> seconds.
\<close>

record datetime =
  micros :: int
  tzinfo :: "int option"

record timedelta =
  days :: int
  seconds :: int
  microseconds :: int

definition US_PER_DAY :: int where
  "US_PER_DAY = 86400000000"

text \<open>Ordinal 1 is 0001-01-01; 3652059 is 9999-12-31 (\<open>datetime.max\<close>).\<close>

definition MAX_MICROS :: int where
  "MAX_MICROS = 3652059 * 86400000000"

definition toordinal :: "datetime \<Rightarrow> int" where
  "toordinal dt = micros dt div US_PER_DAY + 1"

definition second_of_day :: "datetime \<Rightarrow> int" where
  "second_of_day dt = (micros dt mod US_PER_DAY) div 1000000"

definition microsecond :: "datetime \<Rightarrow> int" where
  "microsecond dt = micros dt mod 1000000"

text \<open>\<open>timedelta(days, seconds, microseconds)\<close> normalises its arguments.\<close>

definition timedelta_new :: "int \<Rightarrow> int \<Rightarrow> int \<Rightarrow> timedelta" where
  "timedelta_new d s us =
     (let s1 = s + us div 1000000;
          us1 = us mod 1000000;
          d1 = d + s1 div 86400;
          s2 = s1 mod 86400
      in \<lparr>days = d1, seconds = s2, microseconds = us1\<rparr>)"

text \<open>
  \<open>datetime.__sub__\<close>: the difference of the ordinals, of the seconds of the day and of
  the microseconds, normalised; mixing a naive and an aware operand is a \<open>TypeError\<close>,
  and for two aware operands the difference of the offsets is added.
\<close>

definition datetime_sub :: "datetime \<Rightarrow> datetime \<Rightarrow> error + timedelta" where
  "datetime_sub a b =
     (case (tzinfo a, tzinfo b) of
        (None, None) \<Rightarrow>
          Inr (timedelta_new (toordinal a - toordinal b)
                 (second_of_day a - second_of_day b) (microsecond a - microsecond b))
      | (Some oa, Some ob) \<Rightarrow>
          Inr (timedelta_new (toordinal a - toordinal b)
                 (second_of_day a - second_of_day b + (ob - oa)) (microsecond a - microsecond b))
      | _ \<Rightarrow> Inl TypeError)"


section \<open>IEEE 754 binary64 arithmetic\<close>

text \<open>
  Line 87 of the source divides by the float literal \<open>1e7\<close>, so \<open>ticks_to_datetime\<close>
  computes in binary64.  A finite double is modelled by the rational it denotes.
  \<open>round_double q\<close> is the double nearest to \<open>q\<close>, ties to the even significand
  (53 bits, least exponent \<open>-1074\<close>); results of magnitude \<open>2 ^ 1024\<close> or more are
  overflows and are handled where they can arise.
\<close>

definition pow2 :: "int \<Rightarrow> rat" where
  "pow2 k = (if 0 \<le> k then 2 ^ nat k else 1 / 2 ^ nat (- k))"

definition round_half_even :: "rat \<Rightarrow> int" where
  "round_half_even q =
     (let f = \<lfloor>q\<rfloor>; r = q - of_int f
      in if r < 1 / 2 then f
         else if 1 / 2 < r then f + 1
         else if even f then f else f + 1)"

text \<open>\<open>ilog2 q\<close> is \<open>\<lfloor>log\<^sub>2 |q|\<rfloor>\<close> for \<open>q \<noteq> 0\<close>, computed from the bit lengths.\<close>

definition ilog2 :: "rat \<Rightarrow> int" where
  "ilog2 q =
     (let (a, b) = quotient_of \<bar>q\<bar>;
          k = bitlen a - bitlen b
      in if pow2 k \<le> \<bar>q\<bar> then k else k - 1)"

definition round_double :: "rat \<Rightarrow> rat" where
  "round_double q =
     (if q = 0 then 0
      else let e = max (ilog2 q - 52) (- 1074);
               m = round_half_even (\<bar>q\<bar> / pow2 e)
           in sgn q * of_int m * pow2 e)"

text \<open>\<open>float(n)\<close> for a Python int: correctly rounded, \<open>OverflowError\<close> when too large.\<close>

definition float_of_int :: "int \<Rightarrow> error + rat" where
  "float_of_int n =
     (let x = round_double (of_int n)
      in if pow2 1024 \<le> \<bar>x\<bar> then Inl OverflowError else Inr x)"

definition fdiv :: "rat \<Rightarrow> rat \<Rightarrow> rat" where
  "fdiv x y = round_double (x / y)"

definition fmul :: "rat \<Rightarrow> rat \<Rightarrow> rat" where
  "fmul x y = round_double (x * y)"

definition fadd :: "rat \<Rightarrow> rat \<Rightarrow> rat" where
  "fadd x y = round_double (x + y)"

text \<open>\<open>math.modf\<close>: fractional and integral part, both with the sign of the argument.\<close>

definition modf :: "rat \<Rightarrow> rat \<times> rat" where
  "modf x = (let t = (if 0 \<le> x then of_int \<lfloor>x\<rfloor> else of_int \<lceil>x\<rceil>) in (x - t, t))"

text \<open>The integral part that \<open>modf\<close> returns, as an integer (rounding towards zero).\<close>

definition trunc :: "rat \<Rightarrow> int" where
  "trunc x = (if 0 \<le> x then \<lfloor>x\<rfloor> else \<lceil>x\<rceil>)"


section \<open>The time codec (lines 85 to 99)\<close>

definition EPOCH :: int where
  "EPOCH = 621355968000000000"

text \<open>
  \<open>datetime.datetime.utcfromtimestamp(t)\<close> for a float (or int) \<open>t\<close>, as CPython 3.11
  computes it on Linux (glibc, 64-bit \<open>time_t\<close>): split \<open>t\<close> with \<open>modf\<close>, round the
  fraction times \<open>1e6\<close> half-to-even to microseconds and carry into the seconds.  The
  seconds must fit \<open>time_t\<close> (\<open>OverflowError\<close> otherwise), \<open>gmtime\<close> must be able to
  store the year in a C \<open>int\<close> (\<open>OSError\<close> otherwise: the seconds then lie outside
  \<open>GMTIME_MIN\<close> to \<open>GMTIME_MAX\<close>), and the naive datetime that many seconds after
  1970-01-01 must lie in the years 1 to 9999 (\<open>ValueError\<close> otherwise).
\<close>

definition GMTIME_MIN :: int where
  "GMTIME_MIN = - 67768040609740800"

definition GMTIME_MAX :: int where
  "GMTIME_MAX = 67768036191676799"

definition utcfromtimestamp :: "rat \<Rightarrow> error + datetime" where
  "utcfromtimestamp x =
     (let (frac, t) = modf x;
          us = round_half_even (fmul frac 1000000);
          (t1, us1) = (if 1000000 \<le> us then (fadd t 1, us - 1000000)
                       else if us < 0 then (fadd t (- 1), us + 1000000)
                       else (t, us));
          m = 719162 * US_PER_DAY + \<lfloor>t1\<rfloor> * 1000000 + us1
      in if \<not> (- (2 ^ 63) \<le> t1 \<and> t1 < 2 ^ 63) then Inl OverflowError
         else if \<not> (of_int GMTIME_MIN \<le> t1 \<and> t1 \<le> of_int GMTIME_MAX) then Inl OSError
         else if 0 \<le> m \<and> m < MAX_MICROS then Inr \<lparr>micros = m, tzinfo = None\<rparr>
         else Inl ValueError)"

text \<open>Line 86: \<open>ticks_to_datetime\<close>.  \<open>int / float\<close> converts the int to a float first.\<close>

definition ticks_to_datetime :: "int \<Rightarrow> error + datetime" where
  "ticks_to_datetime ticks =
     (case float_of_int (ticks - EPOCH) of
        Inl e \<Rightarrow> Inl e
      | Inr x \<Rightarrow> utcfromtimestamp (fdiv x 10000000))"

text \<open>Line 91: \<open>datetime_to_ticks\<close>.\<close>

definition datetime_to_ticks :: "datetime \<Rightarrow> error + int" where
  "datetime_to_ticks dt =
     (if tzinfo dt \<noteq> None then Inl ValueError
      else case utcfromtimestamp 0 of
             Inl e \<Rightarrow> Inl e
           | Inr epoch \<Rightarrow>
               (case datetime_sub dt epoch of
                  Inl e \<Rightarrow> Inl e
                | Inr delta \<Rightarrow>
                    Inr (((days delta * 86400 + seconds delta) * 1000000
                            + microseconds delta) * 10 + EPOCH)))"


section \<open>Text\<close>

text \<open>
  A Python \<open>str\<close> on the program's own side (the command line, paths, the requests it
  formats and the lines it prints) is modelled by the \<open>string\<close> of its UTF-8 bytes, so
  that \<open>encode("UTF-8")\<close> is the identity; arguments that have no UTF-8 encoding are
  outside the model.  What arrives on the response pipe is arbitrary bytes: the program
  decodes it, and the decoded \<open>str\<close> is the list of its code points.
\<close>

type_synonym unicode = "int list"

definition TAB :: char where
  "TAB = CHR 0x09"

definition LF :: char where
  "LF = CHR 0x0A"

definition CR :: char where
  "CR = CHR 0x0D"

text \<open>The \<open>str\<close> literal with the given ASCII characters.\<close>

definition ascii_str :: "string \<Rightarrow> unicode" where
  "ascii_str s = map of_char s"

text \<open>
  \<open>b.decode("UTF-8")\<close> with the default strict error handling: \<open>None\<close> stands for the
  \<open>UnicodeDecodeError\<close> raised on a byte sequence that is not well-formed UTF-8
  (a stray or missing continuation byte, an overlong form, a surrogate, a value above
  U+10FFFF).
\<close>

definition is_cont :: "int \<Rightarrow> bool" where
  "is_cont b \<longleftrightarrow> 128 \<le> b \<and> b < 192"

fun utf8_decode :: "string \<Rightarrow> unicode option" where
  "utf8_decode [] = Some []"
| "utf8_decode [c0] =
     (if (of_char c0 :: int) < 128 then Some [of_char c0] else None)"
| "utf8_decode [c0, c1] =
     (let b0 = of_char c0 :: int; b1 = of_char c1 :: int
      in if b0 < 128 then map_option ((#) b0) (utf8_decode [c1])
         else if 194 \<le> b0 \<and> b0 < 224 \<and> is_cont b1 then Some [(b0 - 192) * 64 + (b1 - 128)]
         else None)"
| "utf8_decode [c0, c1, c2] =
     (let b0 = of_char c0 :: int; b1 = of_char c1 :: int; b2 = of_char c2 :: int
      in if b0 < 128 then map_option ((#) b0) (utf8_decode [c1, c2])
         else if 194 \<le> b0 \<and> b0 < 224 \<and> is_cont b1
         then map_option ((#) ((b0 - 192) * 64 + (b1 - 128))) (utf8_decode [c2])
         else if 224 \<le> b0 \<and> b0 < 240 \<and> is_cont b1 \<and> is_cont b2
                 \<and> (if b0 = 224 then 160 \<le> b1 else if b0 = 237 then b1 < 160 else True)
         then Some [(b0 - 224) * 4096 + (b1 - 128) * 64 + (b2 - 128)]
         else None)"
| "utf8_decode (c0 # c1 # c2 # c3 # cs) =
     (let b0 = of_char c0 :: int; b1 = of_char c1 :: int; b2 = of_char c2 :: int;
          b3 = of_char c3 :: int
      in if b0 < 128 then map_option ((#) b0) (utf8_decode (c1 # c2 # c3 # cs))
         else if 194 \<le> b0 \<and> b0 < 224 \<and> is_cont b1
         then map_option ((#) ((b0 - 192) * 64 + (b1 - 128))) (utf8_decode (c2 # c3 # cs))
         else if 224 \<le> b0 \<and> b0 < 240 \<and> is_cont b1 \<and> is_cont b2
                 \<and> (if b0 = 224 then 160 \<le> b1 else if b0 = 237 then b1 < 160 else True)
         then map_option ((#) ((b0 - 224) * 4096 + (b1 - 128) * 64 + (b2 - 128)))
                (utf8_decode (c3 # cs))
         else if 240 \<le> b0 \<and> b0 < 245 \<and> is_cont b1 \<and> is_cont b2 \<and> is_cont b3
                 \<and> (if b0 = 240 then 144 \<le> b1 else if b0 = 244 then b1 < 144 else True)
         then map_option
                ((#) ((b0 - 240) * 262144 + (b1 - 128) * 4096 + (b2 - 128) * 64 + (b3 - 128)))
                (utf8_decode cs)
         else None)"

text \<open>\<open>s.split(c)\<close> for a one-character separator: empty tokens are kept.\<close>

fun split :: "'a \<Rightarrow> 'a list \<Rightarrow> 'a list list" where
  "split c [] = [[]]"
| "split c (x # xs) =
     (if x = c then [] # split c xs
      else case split c xs of
             t # ts \<Rightarrow> (x # t) # ts
           | [] \<Rightarrow> [[x]])"

text \<open>\<open>s.rstrip(chars)\<close>: drop every trailing character that occurs in \<open>chars\<close>.\<close>

definition rstrip :: "'a list \<Rightarrow> 'a list \<Rightarrow> 'a list" where
  "rstrip chars s = rev (dropWhile (\<lambda>c. c \<in> set chars) (rev s))"

definition startswith :: "string \<Rightarrow> string \<Rightarrow> bool" where
  "startswith s p \<longleftrightarrow> take (length p) s = p"

text \<open>
  \<open>int(s)\<close> for a \<open>str\<close>, as CPython 3.11 computes it with its default settings
  (Unicode 14.0).  First every character from U+007F on is replaced: a Unicode space
  by an ASCII space, a character with a decimal digit value by the ASCII digit of that
  value, anything else by \<open>?\<close>; characters below U+007F are kept.
\<close>

definition uni_space :: "int \<Rightarrow> bool" where
  "uni_space c \<longleftrightarrow>
     c \<in> set [0x85, 0xA0, 0x1680, 0x2028, 0x2029, 0x202F, 0x205F, 0x3000]
     \<or> (0x2000 \<le> c \<and> c \<le> 0x200A)"

text \<open>
  The code points of the digits zero of Unicode 14.0; the digits one to nine of each
  script follow their zero.
\<close>

definition DECIMAL_ZEROS :: "int list" where
  "DECIMAL_ZEROS =
     [48, 1632, 1776, 1984, 2406, 2534, 2662, 2790, 2918, 3046, 3174, 3302, 3430, 3558,
      3664, 3792, 3872, 4160, 4240, 6112, 6160, 6470, 6608, 6784, 6800, 6992, 7088, 7232,
      7248, 42528, 43216, 43264, 43472, 43504, 43600, 44016, 65296, 66720, 68912, 69734,
      69872, 69942, 70096, 70384, 70736, 70864, 71248, 71360, 71472, 71904, 72016, 72784,
      73040, 73120, 92768, 92864, 93008, 120782, 120792, 120802, 120812, 120822, 123200,
      123632, 125264, 130032]"

definition uni_decimal :: "int \<Rightarrow> int option" where
  "uni_decimal c =
     map_option (\<lambda>z. c - z) (find (\<lambda>z. z \<le> c \<and> c < z + 10) DECIMAL_ZEROS)"

definition to_ascii :: "int \<Rightarrow> int" where
  "to_ascii c =
     (if c < 127 then c
      else if uni_space c then 32
      else case uni_decimal c of Some d \<Rightarrow> 48 + d | None \<Rightarrow> 63)"

text \<open>
  Then the ASCII text is parsed: whitespace (the six characters of C's \<open>isspace\<close>)
  around an optional sign and decimal digits in which single underscores may separate
  digits.  More than 4300 digits, and any other text, is a \<open>ValueError\<close> (\<open>None\<close>
  here).
\<close>

definition is_space :: "int \<Rightarrow> bool" where
  "is_space c \<longleftrightarrow> c \<in> set [0x09, 0x0A, 0x0B, 0x0C, 0x0D, 0x20]"

definition strip :: "unicode \<Rightarrow> unicode" where
  "strip s = rev (dropWhile is_space (rev (dropWhile is_space s)))"

definition is_digit :: "int \<Rightarrow> bool" where
  "is_digit c \<longleftrightarrow> 48 \<le> c \<and> c \<le> 57"

definition digit_val :: "int \<Rightarrow> int" where
  "digit_val c = c - 48"

fun int_digits :: "int \<Rightarrow> unicode \<Rightarrow> int option" where
  "int_digits acc [] = Some acc"
| "int_digits acc (c # cs) =
     (if is_digit c then int_digits (acc * 10 + digit_val c) cs
      else if c = 0x5F then
        (case cs of
           [] \<Rightarrow> None
         | d # ds \<Rightarrow> if is_digit d then int_digits (acc * 10 + digit_val d) ds else None)
      else None)"

definition MAX_STR_DIGITS :: nat where
  "MAX_STR_DIGITS = 4300"

definition int_unsigned :: "unicode \<Rightarrow> int option" where
  "int_unsigned s =
     (case s of
        [] \<Rightarrow> None
      | c # cs \<Rightarrow>
          if is_digit c \<and> length (filter is_digit s) \<le> MAX_STR_DIGITS
          then int_digits (digit_val c) cs else None)"

definition py_int :: "unicode \<Rightarrow> int option" where
  "py_int s =
     (case strip (map to_ascii s) of
        [] \<Rightarrow> None
      | c # r \<Rightarrow>
          if c = 0x2D then map_option uminus (int_unsigned r)
          else if c = 0x2B then int_unsigned r
          else int_unsigned (c # r))"

definition digit_char :: "nat \<Rightarrow> char" where
  "digit_char d = char_of (48 + d)"

fun str_nat :: "nat \<Rightarrow> string" where
  "str_nat n = (if n < 10 then [digit_char n] else str_nat (n div 10) @ [digit_char (n mod 10)])"

declare str_nat.simps [simp del]

text \<open>\<open>str(i)\<close> and the \<open>%0wd\<close> conversion for an int.\<close>

definition str_int :: "int \<Rightarrow> string" where
  "str_int i = (if i < 0 then CHR ''-'' # str_nat (nat (- i)) else str_nat (nat i))"

definition zfill :: "nat \<Rightarrow> int \<Rightarrow> string" where
  "zfill w i =
     (if i < 0 then CHR ''-'' # replicate (w - 1 - length (str_nat (nat (- i)))) CHR ''0''
                     @ str_nat (nat (- i))
      else replicate (w - length (str_nat (nat i))) CHR ''0'' @ str_nat (nat i))"


section \<open>Calendar fields and \<open>str\<close> of a datetime\<close>

definition DAYS_IN_MONTH :: "int list" where
  "DAYS_IN_MONTH = [- 1, 31, 28, 31, 30, 31, 30, 31, 31, 30, 31, 30, 31]"

definition DAYS_BEFORE_MONTH :: "int list" where
  "DAYS_BEFORE_MONTH = [- 1, 0, 31, 59, 90, 120, 151, 181, 212, 243, 273, 304, 334]"

definition is_leap :: "int \<Rightarrow> bool" where
  "is_leap year \<longleftrightarrow> year mod 4 = 0 \<and> (year mod 100 \<noteq> 0 \<or> year mod 400 = 0)"

definition days_before_year :: "int \<Rightarrow> int" where
  "days_before_year year =
     (let y = year - 1 in y * 365 + y div 4 - y div 100 + y div 400)"

definition ymd2ord :: "int \<Rightarrow> int \<Rightarrow> int \<Rightarrow> int" where
  "ymd2ord year month day =
     days_before_year year
       + (DAYS_BEFORE_MONTH ! nat month + (if 2 < month \<and> is_leap year then 1 else 0))
       + day"

text \<open>The library's inverse of \<open>ymd2ord\<close>: ordinal to (year, month, day).\<close>

definition ord2ymd :: "int \<Rightarrow> int \<times> int \<times> int" where
  "ord2ymd ordinal =
     (let n = ordinal - 1;
          n400 = n div 146097; r400 = n mod 146097;
          n100 = r400 div 36524; r100 = r400 mod 36524;
          n4 = r100 div 1461; r4 = r100 mod 1461;
          n1 = r4 div 365; r1 = r4 mod 365;
          year = n400 * 400 + 1 + n100 * 100 + n4 * 4 + n1
      in if n1 = 4 \<or> n100 = 4 then (year - 1, 12, 31)
         else
           let leapyear = (n1 = 3 \<and> (n4 \<noteq> 24 \<or> n100 = 3));
               month = (r1 + 50) div 32;
               preceding = DAYS_BEFORE_MONTH ! nat month
                             + (if 2 < month \<and> leapyear then 1 else 0)
           in if r1 < preceding
              then (year, month - 1,
                    r1 - (preceding - (DAYS_IN_MONTH ! nat (month - 1)
                                         + (if month - 1 = 2 \<and> leapyear then 1 else 0))) + 1)
              else (year, month, r1 - preceding + 1))"

text \<open>
  A datetime from its fields, as \<open>datetime(year, month, day, hour, minute, second,
  microsecond, tzinfo)\<close> builds it (the arguments are taken to be in range).
\<close>

definition mk_datetime ::
  "int \<Rightarrow> int \<Rightarrow> int \<Rightarrow> int \<Rightarrow> int \<Rightarrow> int \<Rightarrow> int \<Rightarrow> int option \<Rightarrow> datetime" where
  "mk_datetime y m d hh mm ss us tz =
     \<lparr>micros = (ymd2ord y m d - 1) * US_PER_DAY + ((hh * 60 + mm) * 60 + ss) * 1000000 + us,
      tzinfo = tz\<rparr>"

definition format_offset :: "int option \<Rightarrow> string" where
  "format_offset tz =
     (case tz of
        None \<Rightarrow> []
      | Some off \<Rightarrow>
          (let a = \<bar>off\<bar>; hh = a div 3600; mm = (a mod 3600) div 60; ss = a mod 60
           in (if off < 0 then ''-'' else ''+'') @ zfill 2 hh @ '':'' @ zfill 2 mm
                @ (if ss \<noteq> 0 then '':'' @ zfill 2 ss else [])))"

text \<open>\<open>str(dt)\<close>, which is \<open>dt.isoformat(sep=' ')\<close>.\<close>

definition str_datetime :: "datetime \<Rightarrow> string" where
  "str_datetime dt =
     (let (y, m, d) = ord2ymd (toordinal dt);
          s = second_of_day dt;
          us = microsecond dt
      in zfill 4 y @ ''-'' @ zfill 2 m @ ''-'' @ zfill 2 d @ '' ''
           @ zfill 2 (s div 3600) @ '':'' @ zfill 2 ((s mod 3600) div 60) @ '':''
           @ zfill 2 (s mod 60)
           @ (if us \<noteq> 0 then ''.'' @ zfill 6 us else [])
           @ format_offset (tzinfo dt))"

text \<open>
  Python is dynamically typed: the \<open>ticks\<close> parameter of the Set methods receives
  whatever object the caller passes, and \<open>"{}".format\<close> renders it with \<open>str\<close>.
\<close>

datatype pyval = PyInt int | PyDatetime datetime

definition py_str :: "pyval \<Rightarrow> string" where
  "py_str v = (case v of PyInt i \<Rightarrow> str_int i | PyDatetime dt \<Rightarrow> str_datetime dt)"

text \<open>Truth value of a datetime object: it defines neither \<open>__bool__\<close> nor \<open>__len__\<close>.\<close>

definition datetime_bool :: "datetime \<Rightarrow> bool" where
  "datetime_bool dt \<longleftrightarrow> True"


section \<open>The world of one run\<close>

text \<open>
  Everything the program does to the outside is recorded, in order, as a list of
  events: launching the accessor executable, the bytes written to its standard input
  (each write is flushed at once), the lines printed on the program's own standard
  output, and the closing of the pipes with the wait for the child.
\<close>

datatype event =
    Popen string
  | Write string
  | Print string
  | Close

text \<open>
  \<open>response\<close> is what is still to be read from the child's standard output.  A read
  that would block for ever is outside the model: the stream is finite, and reading at
  its end returns the empty string, as \<open>readline\<close> does at end of file.
\<close>

record world =
  trace :: "event list"
  response :: string

text \<open>
  What a run depends on: the command line, the file system (\<open>os.path.isfile\<close>,
  \<open>os.path.abspath\<close>), the library's \<open>datetime.strptime\<close> with the fixed format
  \<open>'%Y/%m/%d %H:%M:%S %z'\<close> (\<open>None\<close> stands for its \<open>ValueError\<close>), whether the
  executable can be started, what the child writes, and its exit code.
\<close>

record env =
  sys_argv :: "string list"
  isfile :: "string \<Rightarrow> bool"
  abspath :: "string \<Rightarrow> string"
  strptime :: "string \<Rightarrow> datetime option"
  launches :: bool
  child_output :: string
  returncode :: int

type_synonym 'a io = "world \<Rightarrow> (error + 'a) \<times> world"

definition io_return :: "'a \<Rightarrow> 'a io" where
  "io_return x w = (Inr x, w)"

definition io_raise :: "error \<Rightarrow> 'a io" where
  "io_raise e w = (Inl e, w)"

definition io_lift :: "error + 'a \<Rightarrow> 'a io" where
  "io_lift r w = (r, w)"

definition io_bind :: "'a io \<Rightarrow> ('a \<Rightarrow> 'b io) \<Rightarrow> 'b io" where
  "io_bind m f w = (case m w of (Inl e, w1) \<Rightarrow> (Inl e, w1) | (Inr x, w1) \<Rightarrow> f x w1)"

definition emit :: "event \<Rightarrow> world \<Rightarrow> world" where
  "emit ev w = w\<lparr>trace := trace w @ [ev]\<rparr>"

definition io_print :: "string \<Rightarrow> unit io" where
  "io_print s w = (Inr (), emit (Print s) w)"

fun take_line :: "string \<Rightarrow> string \<times> string" where
  "take_line [] = ([], [])"
| "take_line (c # cs) =
     (if c = LF then ([c], cs) else (case take_line cs of (l, r) \<Rightarrow> (c # l, r)))"

definition readline :: "world \<Rightarrow> string \<times> world" where
  "readline w = (case take_line (response w) of (l, r) \<Rightarrow> (l, w\<lparr>response := r\<rparr>))"


section \<open>The timestamp channel (lines 19 to 82)\<close>

definition EXECUTABLE_PATH :: string where
  "EXECUTABLE_PATH = ''WindowsTimestampAccessor.exe''"

text \<open>\<open>__init__\<close>: \<open>subprocess.Popen\<close> raises \<open>OSError\<close> when the executable cannot be run.\<close>

definition accessor_init :: "env \<Rightarrow> unit io" where
  "accessor_init env w =
     (let w1 = emit (Popen EXECUTABLE_PATH) w
      in if launches env then (Inr (), w1\<lparr>response := child_output env\<rparr>)
         else (Inl OSError, w1))"

text \<open>\<open>close\<close>, which \<open>__exit__\<close> calls.\<close>

definition accessor_close :: "env \<Rightarrow> unit io" where
  "accessor_close env w =
     (let w1 = emit Close w
      in if returncode env \<noteq> 0 then (Inl (CalledProcessError (returncode env)), w1)
         else (Inr (), w1))"

text \<open>\<open>_get_some_time\<close> (line 57).\<close>

definition get_some_time :: "env \<Rightarrow> string \<Rightarrow> string \<Rightarrow> int io" where
  "get_some_time env type path w =
     (let w1 = emit (Write (''Get'' @ type @ ''Time'' @ [TAB] @ abspath env path @ [LF])) w;
          (line, w2) = readline w1
      in case utf8_decode line of
           None \<Rightarrow> (Inl UnicodeDecodeError, w2)
         | Some decoded \<Rightarrow>
             (let tokens = split (of_char TAB) (rstrip (ascii_str [CR, LF]) decoded)
              in if length tokens \<noteq> 2 \<or> tokens ! 0 \<noteq> ascii_str ''ok''
                 then (Inl Exception, w2)
                 else case py_int (tokens ! 1) of
                        None \<Rightarrow> (Inl ValueError, w2)
                      | Some n \<Rightarrow> (Inr n, w2)))"

definition get_creation_time :: "env \<Rightarrow> string \<Rightarrow> int io" where
  "get_creation_time env path = get_some_time env ''Creation'' path"

definition get_modification_time :: "env \<Rightarrow> string \<Rightarrow> int io" where
  "get_modification_time env path = get_some_time env ''Modification'' path"

definition get_access_time :: "env \<Rightarrow> string \<Rightarrow> int io" where
  "get_access_time env path = get_some_time env ''Access'' path"

text \<open>\<open>_set_some_time\<close> (line 77).\<close>

definition set_some_time :: "env \<Rightarrow> string \<Rightarrow> string \<Rightarrow> pyval \<Rightarrow> unit io" where
  "set_some_time env type path ticks w =
     (let w1 = emit (Write (''Set'' @ type @ ''Time'' @ [TAB] @ abspath env path @ [TAB]
                              @ py_str ticks @ [LF])) w;
          (line, w2) = readline w1
      in case utf8_decode line of
           None \<Rightarrow> (Inl UnicodeDecodeError, w2)
         | Some decoded \<Rightarrow>
             if rstrip (ascii_str [CR, LF]) decoded \<noteq> ascii_str ''ok''
             then (Inl Exception, w2) else (Inr (), w2))"

definition set_creation_time :: "env \<Rightarrow> string \<Rightarrow> pyval \<Rightarrow> unit io" where
  "set_creation_time env path ticks = set_some_time env ''Creation'' path ticks"

definition set_modification_time :: "env \<Rightarrow> string \<Rightarrow> pyval \<Rightarrow> unit io" where
  "set_modification_time env path ticks = set_some_time env ''Modification'' path ticks"

definition set_access_time :: "env \<Rightarrow> string \<Rightarrow> pyval \<Rightarrow> unit io" where
  "set_access_time env path ticks = set_some_time env ''Access'' path ticks"


section \<open>The command-line driver (lines 102 to 159)\<close>

definition USAGE_LINE :: string where
  "USAGE_LINE = ''usage:   ./timestomp.py path -[pmacb] [%Y/%m/%d %H:%M:%S %z]''"

definition EXAMPLE_LINE :: string where
  "EXAMPLE_LINE = ''example: ./timestomp.py test.txt -ma 2000/02/28 13:03:30 UTC''"

definition usage :: "'a io" where
  "usage =
     io_bind (io_print USAGE_LINE) (\<lambda>_.
     io_bind (io_print EXAMPLE_LINE) (\<lambda>_.
     io_raise (SystemExit 1)))"

text \<open>Lines 123 to 125: the loop that validates the flag letters.\<close>

fun check_commands :: "string \<Rightarrow> unit io" where
  "check_commands [] = io_return ()"
| "check_commands (c # cs) =
     (if c \<notin> set [CHR ''p'', CHR ''m'', CHR ''a'', CHR ''c'', CHR ''b''] then usage
      else check_commands cs)"

text \<open>
  Lines 128 to 133, and again lines 154 to 159: three Get requests, then the three
  labelled lines, each converting its tick value when it is printed.
\<close>

definition query_and_print :: "env \<Rightarrow> string \<Rightarrow> unit io" where
  "query_and_print env path =
     io_bind (get_access_time env path) (\<lambda>access_time.
     io_bind (get_modification_time env path) (\<lambda>modification_time.
     io_bind (get_creation_time env path) (\<lambda>creation_time.
     io_bind (io_lift (ticks_to_datetime access_time)) (\<lambda>a.
     io_bind (io_print (''access_time:       '' @ str_datetime a)) (\<lambda>_.
     io_bind (io_lift (ticks_to_datetime modification_time)) (\<lambda>m.
     io_bind (io_print (''modification_time: '' @ str_datetime m)) (\<lambda>_.
     io_bind (io_lift (ticks_to_datetime creation_time)) (\<lambda>b.
     io_print (''birth_time:        '' @ str_datetime b)))))))))"

text \<open>Lines 142 to 150: the loop that applies the flag letters; it passes \<open>date\<close> itself.\<close>

fun apply_commands :: "env \<Rightarrow> string \<Rightarrow> datetime \<Rightarrow> string \<Rightarrow> unit io" where
  "apply_commands env path date [] = io_return ()"
| "apply_commands env path date (c # cs) =
     io_bind
       (if c = CHR ''m'' then set_modification_time env path (PyDatetime date)
        else if c = CHR ''a'' then set_access_time env path (PyDatetime date)
        else if c = CHR ''c'' then io_print ''c (MFT change) not implemented yet''
        else if c = CHR ''b'' then set_creation_time env path (PyDatetime date)
        else io_return ())
       (\<lambda>_. apply_commands env path date cs)"

text \<open>The body of the \<open>with\<close> statement (lines 109 to 159).\<close>

definition main_body :: "env \<Rightarrow> unit io" where
  "main_body env =
     (let argv = sys_argv env
      in if length argv < 3 then usage
         else
           let path = argv ! 1
           in if \<not> isfile env path then usage
              else if \<not> startswith (argv ! 2) ''-'' then usage
              else
                io_bind (io_print ''DEBUG: made it here'') (\<lambda>_.
                let commands = drop 1 (argv ! 2)
                in io_bind (check_commands commands) (\<lambda>_.
                   io_bind
                     (if CHR ''p'' \<in> set commands
                      then io_bind (query_and_print env path) (\<lambda>_.
                             io_return (length commands = 1))
                      else io_return False) (\<lambda>returned.
                   if returned then io_return ()
                   else if length argv \<le> 3 then io_raise IndexError
                   else
                     case strptime env (argv ! 3) of
                       None \<Rightarrow> io_raise ValueError
                     | Some date \<Rightarrow>
                         if \<not> datetime_bool date then usage
                         else
                           io_bind (apply_commands env path date commands) (\<lambda>_.
                           if CHR ''p'' \<in> set commands
                           then io_bind (io_print (''times for '' @ path @ '' changed to: ''))
                                  (\<lambda>_. query_and_print env path)
                           else io_return ())))))"

text \<open>
  \<open>main\<close>: the \<open>with\<close> statement opens the accessor before anything else and closes it
  on every way out of the body; an exception raised by \<open>close\<close> replaces whatever the
  body raised.
\<close>

definition main :: "env \<Rightarrow> (error + unit) \<times> world" where
  "main env =
     (case accessor_init env \<lparr>trace = [], response = []\<rparr> of
        (Inl e, w) \<Rightarrow> (Inl e, w)
      | (Inr _, w) \<Rightarrow>
          (case main_body env w of
             (r, w1) \<Rightarrow>
               (case accessor_close env w1 of
                  (Inl e, w2) \<Rightarrow> (Inl e, w2)
                | (Inr _, w2) \<Rightarrow> (r, w2))))"

text \<open>
  The exit status of the interpreter: 0 after a normal return, the argument of
  \<open>sys.exit\<close>, and 1 after any other uncaught exception.
\<close>

definition exit_status :: "error + unit \<Rightarrow> int" where
  "exit_status r = (case r of Inr _ \<Rightarrow> 0 | Inl (SystemExit n) \<Rightarrow> n | Inl _ \<Rightarrow> 1)"


definition written :: "world \<Rightarrow> string list" where
  "written w = concat (map (\<lambda>ev. case ev of Write s \<Rightarrow> [s] | _ \<Rightarrow> []) (trace w))"


text \<open>The line that the next \<open>readline\<close> on the response pipe returns.\<close>

definition next_line :: "world \<Rightarrow> string" where
  "next_line w = fst (take_line (response w))"




section \<open>Example runs\<close>

text \<open>
  \<open>./timestomp.py test.txt -ma "2000/02/28 13:03:30 +0000"\<close> on an existing file, with
  an accessor that answers \<open>ok\<close> twice and exits with status 0.
\<close>

definition set_env :: env where
  "set_env =
     \<lparr>sys_argv = [''./timestomp.py'', ''test.txt'', ''-ma'', ''2000/02/28 13:03:30 +0000''],
      isfile = (=) ''test.txt'',
      abspath = (@) ''/work/'',
      strptime = map_of [(''2000/02/28 13:03:30 +0000'',
                          mk_datetime 2000 2 28 13 3 30 0 (Some 0))],
      launches = True,
      child_output = ''ok'' @ [LF] @ ''ok'' @ [LF],
      returncode = 0\<rparr>"

text \<open>\<open>./timestomp.py test.txt -p\<close> with an accessor that reports three tick values.\<close>

definition print_env :: env where
  "print_env =
     set_env\<lparr>sys_argv := [''./timestomp.py'', ''test.txt'', ''-p''],
             child_output :=
               ''ok'' @ [TAB] @ ''637134336000000000'' @ [LF]
               @ ''ok'' @ [TAB] @ ''630873398100000000'' @ [CR, LF]
               @ ''ok'' @ [TAB] @ ''621355968000000000'' @ [LF]\<rparr>"

text \<open>An unknown flag letter, a missing date argument, and a date that does not parse.\<close>

definition unknown_flag_env :: env where
  "unknown_flag_env = set_env\<lparr>sys_argv := [''./timestomp.py'', ''test.txt'', ''-x'']\<rparr>"


definition bad_date_env :: env where
  "bad_date_env = set_env\<lparr>sys_argv := [''./timestomp.py'', ''test.txt'', ''-m'', ''yesterday'']\<rparr>"


section \<open>Properties of the codec\<close>

definition unix_epoch :: datetime where
  "unix_epoch = \<lparr>micros = 62135596800000000, tzinfo = None\<rparr>"

lemma round_half_even_0: "round_half_even 0 = 0"
  by (simp add: round_half_even_def)

lemma utcfromtimestamp_0: "utcfromtimestamp 0 = Inr unix_epoch"
  by (simp add: utcfromtimestamp_def modf_def fmul_def round_double_def round_half_even_0
      US_PER_DAY_def MAX_MICROS_def GMTIME_MIN_def GMTIME_MAX_def unix_epoch_def)

lemma timedelta_new_ranges:
  "0 \<le> seconds (timedelta_new d s us) \<and> seconds (timedelta_new d s us) < 86400 \<and>
   0 \<le> microseconds (timedelta_new d s us) \<and> microseconds (timedelta_new d s us) < 1000000"
  by (simp add: timedelta_new_def Let_def)

lemma timedelta_new_total:
  "(days (timedelta_new d s us) * 86400 + seconds (timedelta_new d s us)) * 1000000
     + microseconds (timedelta_new d s us) = (d * 86400 + s) * 1000000 + us"
proof -
  define s1 where "s1 = s + us div 1000000"
  have "(days (timedelta_new d s us) * 86400 + seconds (timedelta_new d s us)) * 1000000
          + microseconds (timedelta_new d s us)
        = ((d + s1 div 86400) * 86400 + s1 mod 86400) * 1000000 + us mod 1000000"
    by (simp add: timedelta_new_def Let_def s1_def)
  also have "\<dots> = (d * 86400 + (s1 div 86400 * 86400 + s1 mod 86400)) * 1000000 + us mod 1000000"
    by (simp add: algebra_simps)
  also have "\<dots> = (d * 86400 + s1) * 1000000 + us mod 1000000"
    by simp
  also have "\<dots> = (d * 86400 + s) * 1000000 + (us div 1000000 * 1000000 + us mod 1000000)"
    by (simp add: s1_def algebra_simps)
  also have "\<dots> = (d * 86400 + s) * 1000000 + us"
    by simp
  finally show ?thesis .
qed

lemma datetime_fields_total:
  "((toordinal dt - 1) * 86400 + second_of_day dt) * 1000000 + microsecond dt = micros dt"
proof -
  let ?m = "micros dt"
  let ?r = "?m mod 86400000000"
  have "(1000000::int) dvd 86400000000" by simp
  then have mm: "?r mod 1000000 = ?m mod 1000000"
    by (rule mod_mod_cancel)
  have "((toordinal dt - 1) * 86400 + second_of_day dt) * 1000000 + microsecond dt
        = (?m div 86400000000) * 86400000000 + (?r div 1000000 * 1000000 + ?m mod 1000000)"
    by (simp add: toordinal_def second_of_day_def microsecond_def US_PER_DAY_def algebra_simps)
  also have "\<dots> = (?m div 86400000000) * 86400000000 + ?r"
    using mm by (metis div_mult_mod_eq)
  also have "\<dots> = ?m"
    by simp
  finally show ?thesis .
qed

lemma datetime_sub_naive:
  assumes "tzinfo a = None" "tzinfo b = None"
  shows "\<exists>td. datetime_sub a b = Inr td \<and>
           (days td * 86400 + seconds td) * 1000000 + microseconds td = micros a - micros b \<and>
           0 \<le> seconds td \<and> seconds td < 86400 \<and>
           0 \<le> microseconds td \<and> microseconds td < 1000000"
proof -
  let ?td = "timedelta_new (toordinal a - toordinal b)
               (second_of_day a - second_of_day b) (microsecond a - microsecond b)"
  have eq: "datetime_sub a b = Inr ?td"
    using assms by (simp add: datetime_sub_def)
  have "(days ?td * 86400 + seconds ?td) * 1000000 + microseconds ?td
        = ((toordinal a - toordinal b) * 86400 + (second_of_day a - second_of_day b)) * 1000000
            + (microsecond a - microsecond b)"
    by (rule timedelta_new_total)
  also have "\<dots> = (((toordinal a - 1) * 86400 + second_of_day a) * 1000000 + microsecond a)
                  - (((toordinal b - 1) * 86400 + second_of_day b) * 1000000 + microsecond b)"
    by (simp add: algebra_simps)
  also have "\<dots> = micros a - micros b"
    by (simp only: datetime_fields_total)
  finally have tot: "(days ?td * 86400 + seconds ?td) * 1000000 + microseconds ?td
                       = micros a - micros b" .
  from eq tot timedelta_new_ranges show ?thesis
    by blast
qed

lemma datetime_to_ticks_naive:
  assumes "tzinfo dt = None"
  shows "datetime_to_ticks dt = Inr (10 * micros dt)"
proof -
  have ne: "tzinfo unix_epoch = None"
    by (simp add: unix_epoch_def)
  from datetime_sub_naive [OF assms ne] obtain td where
    td: "datetime_sub dt unix_epoch = Inr td"
    and tot: "(days td * 86400 + seconds td) * 1000000 + microseconds td
                = micros dt - micros unix_epoch"
    by blast
  have "datetime_to_ticks dt
          = Inr (((days td * 86400 + seconds td) * 1000000 + microseconds td) * 10 + EPOCH)"
    using assms td by (simp add: datetime_to_ticks_def utcfromtimestamp_0)
  also have "\<dots> = Inr (10 * micros dt)"
    by (simp only: tot) (simp add: unix_epoch_def EPOCH_def)
  finally show ?thesis .
qed

text \<open>
  Claim C6.  For every naive timestamp \<open>ts\<close>, \<open>datetime_to_ticks ts\<close> is
  \<open>((days * 86400 + seconds) * 1000000 + microseconds) * 10 + 621355968000000000\<close>, where
  \<open>days\<close>, \<open>seconds\<close>, \<open>microseconds\<close> are the fields of \<open>ts\<close> minus the Unix epoch
  \<open>utcfromtimestamp 0\<close>: the signed decomposition of the distance, with
  \<open>0 \<le> seconds < 86400\<close>, \<open>0 \<le> microseconds < 1000000\<close> and \<open>days\<close> carrying the sign.
\<close>

theorem datetime_to_ticks_formula:
  assumes "tzinfo ts = None"
  shows "\<exists>e td. utcfromtimestamp 0 = Inr e \<and> datetime_sub ts e = Inr td \<and>
           datetime_to_ticks ts =
             Inr (((days td * 86400 + seconds td) * 1000000 + microseconds td) * 10
                    + 621355968000000000) \<and>
           0 \<le> seconds td \<and> seconds td < 86400 \<and>
           0 \<le> microseconds td \<and> microseconds td < 1000000 \<and>
           (days td * 86400 + seconds td) * 1000000 + microseconds td = micros ts - micros e"
proof -
  have ne: "tzinfo unix_epoch = None"
    by (simp add: unix_epoch_def)
  from datetime_sub_naive [OF assms ne] obtain td where
    td: "datetime_sub ts unix_epoch = Inr td"
    and tot: "(days td * 86400 + seconds td) * 1000000 + microseconds td
                = micros ts - micros unix_epoch"
    and rng: "0 \<le> seconds td" "seconds td < 86400"
             "0 \<le> microseconds td" "microseconds td < 1000000"
    by blast
  have "datetime_to_ticks ts =
          Inr (((days td * 86400 + seconds td) * 1000000 + microseconds td) * 10
                 + 621355968000000000)"
    using assms td by (simp add: datetime_to_ticks_def utcfromtimestamp_0 EPOCH_def)
  with td tot rng utcfromtimestamp_0 show ?thesis
    by blast
qed

theorem datetime_to_ticks_formula_witness:
  "tzinfo \<lparr>micros = 63087339810000000, tzinfo = None\<rparr> = None \<and>
   datetime_to_ticks \<lparr>micros = 63087339810000000, tzinfo = None\<rparr> = Inr 630873398100000000"
proof -
  have h: "tzinfo \<lparr>micros = 63087339810000000, tzinfo = None\<rparr> = None"
    by simp
  from datetime_to_ticks_formula [OF h] show ?thesis
    by (auto simp: utcfromtimestamp_0 unix_epoch_def)
qed

text \<open>
  Claim C7.  \<open>datetime_to_ticks\<close> fails exactly when its argument carries timezone
  metadata, and the failure is then the \<open>ValueError\<close> of line 93; on every naive
  timestamp it returns a tick value.
\<close>

theorem datetime_to_ticks_fails_iff_aware:
  "((\<exists>e. datetime_to_ticks ts = Inl e) \<longleftrightarrow> tzinfo ts \<noteq> None) \<and>
   (datetime_to_ticks ts = Inl ValueError \<longleftrightarrow> tzinfo ts \<noteq> None) \<and>
   ((\<exists>n. datetime_to_ticks ts = Inr n) \<longleftrightarrow> tzinfo ts = None)"
proof (cases "tzinfo ts")
  case None
  then show ?thesis
    by (simp add: datetime_to_ticks_naive)
next
  case (Some off)
  then show ?thesis
    by (simp add: datetime_to_ticks_def)
qed

theorem datetime_to_ticks_fails_iff_aware_witness:
  "datetime_to_ticks \<lparr>micros = 63087339810000000, tzinfo = Some 0\<rparr> = Inl ValueError \<and>
   (\<exists>n. datetime_to_ticks \<lparr>micros = 63087339810000000, tzinfo = None\<rparr> = Inr n)"
  using datetime_to_ticks_fails_iff_aware [of "\<lparr>micros = 63087339810000000, tzinfo = Some 0\<rparr>"]
        datetime_to_ticks_fails_iff_aware [of "\<lparr>micros = 63087339810000000, tzinfo = None\<rparr>"]
  by simp

text \<open>
  Claim C9.  Whenever \<open>datetime_to_ticks\<close> succeeds, its result is a multiple of 10:
  it is ten times a whole number of microseconds plus the constant 621355968000000000,
  itself a multiple of 10.
\<close>

theorem datetime_to_ticks_multiple_of_10:
  assumes "datetime_to_ticks ts = Inr n"
  shows "n mod 10 = 0"
proof -
  have "tzinfo ts = None"
    using assms by (auto simp: datetime_to_ticks_def split: if_splits)
  then have "datetime_to_ticks ts = Inr (10 * micros ts)"
    by (rule datetime_to_ticks_naive)
  with assms have "n = 10 * micros ts"
    by simp
  then show ?thesis
    by simp
qed

theorem datetime_to_ticks_multiple_of_10_witness:
  "datetime_to_ticks \<lparr>micros = 63087339810000001, tzinfo = None\<rparr> = Inr 630873398100000010 \<and>
   (630873398100000010 :: int) mod 10 = 0"
proof -
  have h: "datetime_to_ticks \<lparr>micros = 63087339810000001, tzinfo = None\<rparr>
             = Inr 630873398100000010"
    by (simp add: datetime_to_ticks_naive)
  from datetime_to_ticks_multiple_of_10 [OF h] h show ?thesis
    by simp
qed



section \<open>Rounding errors and the round trip\<close>

lemma pow2_powi: "pow2 k = 2 powi k"
  by (simp add: pow2_def power_int_def inverse_eq_divide power_one_over)

lemma pow2_pos: "0 < pow2 k"
  by (simp add: pow2_powi)

lemma pow2_mono: "i \<le> j \<Longrightarrow> pow2 i \<le> pow2 j"
  by (simp add: pow2_powi power_int_increasing)

lemma pow2_diff: "pow2 (i - j) = pow2 i / pow2 j"
  by (simp add: pow2_powi power_int_diff)

lemma pow2_less_imp: "pow2 i < pow2 j \<Longrightarrow> i < j"
  using pow2_mono [of j i] by (cases "i < j") auto

lemma round_half_even_err: "\<bar>of_int (round_half_even q) - q\<bar> \<le> 1 / 2"
proof -
  have "of_int \<lfloor>q\<rfloor> \<le> q" "q < of_int \<lfloor>q\<rfloor> + 1"
    by linarith+
  then show ?thesis
    by (auto simp: round_half_even_def Let_def)
qed

lemma round_half_even_near:
  assumes "\<bar>q - of_int j\<bar> < 1 / 2"
  shows "round_half_even q = j"
proof -
  have "\<bar>(of_int (round_half_even q) :: rat) - of_int j\<bar> < 1"
    using round_half_even_err [of q] assms by linarith
  then have "\<bar>round_half_even q - j\<bar> < 1"
    by (metis of_int_diff of_int_abs of_int_less_1_iff)
  then show ?thesis by linarith
qed

lemma round_half_even_of_int: "round_half_even (of_int j) = j"
  by (rule round_half_even_near) simp

lemma ilog2_lower:
  assumes "q \<noteq> 0"
  shows "pow2 (ilog2 q) \<le> \<bar>q\<bar>"
proof -
  obtain a b where ab: "quotient_of \<bar>q\<bar> = (a, b)" by (cases "quotient_of \<bar>q\<bar>")
  have b: "0 < b" using quotient_of_denom_pos [OF ab] .
  have q: "\<bar>q\<bar> = of_int a / of_int b" using quotient_of_div [OF ab] .
  have "0 < \<bar>q\<bar>" using assms by simp
  with q b have a: "0 < a"
    by (simp add: zero_less_divide_iff)
  let ?k = "bitlen a - bitlen b"
  show ?thesis
  proof (cases "pow2 ?k \<le> \<bar>q\<bar>")
    case True
    then show ?thesis by (simp add: ilog2_def ab)
  next
    case False
    then have il: "ilog2 q = ?k - 1" by (simp add: ilog2_def ab)
    have la: "(2::int) ^ nat (bitlen a - 1) \<le> a" using bitlen_bounds [OF a] by simp
    have lb: "b < (2::int) ^ nat (bitlen b)" using bitlen_bounds [OF b] by simp
    have ba: "1 \<le> bitlen a" using a by (simp add: bitlen_alt_def)
    have bb: "0 \<le> bitlen b" by (rule bitlen_nonneg)
    have la': "pow2 (bitlen a - 1) \<le> of_int a"
    proof -
      have "(of_int ((2::int) ^ nat (bitlen a - 1)) :: rat) \<le> of_int a"
        using la by (simp only: of_int_le_iff)
      then show ?thesis using ba by (simp add: pow2_def)
    qed
    have lb': "of_int b \<le> pow2 (bitlen b)"
    proof -
      have "(of_int b :: rat) \<le> of_int ((2::int) ^ nat (bitlen b))"
        using lb by (simp only: of_int_le_iff)
      then show ?thesis using bb by (simp add: pow2_def)
    qed
    have "pow2 (?k - 1) = pow2 (bitlen a - 1) / pow2 (bitlen b)"
      using pow2_diff [of "bitlen a - 1" "bitlen b"] by (simp add: algebra_simps)
    also have "\<dots> \<le> of_int a / of_int b"
      using la' lb' b pow2_pos [of "bitlen a - 1"] pow2_pos [of "bitlen b"]
      by (intro frac_le) auto
    finally show ?thesis by (simp add: il q)
  qed
qed

lemma round_double_err:
  assumes "\<bar>q\<bar> < pow2 K" and "- 1021 \<le> K"
  shows "\<bar>round_double q - q\<bar> \<le> pow2 (K - 54)"
proof (cases "q = 0")
  case True
  then show ?thesis using pow2_pos [of "K - 54"] by (simp add: round_double_def)
next
  case False
  define e where "e = max (ilog2 q - 52) (- 1074)"
  define m where "m = round_half_even (\<bar>q\<bar> / pow2 e)"
  have rd: "round_double q = sgn q * of_int m * pow2 e"
    using False by (simp add: round_double_def Let_def e_def m_def)
  have "pow2 (ilog2 q) < pow2 K"
    using ilog2_lower [OF False] assms(1) by linarith
  then have "ilog2 q < K" by (rule pow2_less_imp)
  with assms(2) have e: "e \<le> K - 53" by (simp add: e_def)
  have pe: "0 < pow2 e" by (rule pow2_pos)
  have "\<bar>round_double q - q\<bar> = \<bar>sgn q * (of_int m * pow2 e - \<bar>q\<bar>)\<bar>"
    by (simp add: rd algebra_simps flip: abs_sgn)
       (metis mult.commute mult_sgn_abs)
  also have "\<dots> = \<bar>of_int m * pow2 e - \<bar>q\<bar>\<bar>"
    using False by (simp add: abs_mult abs_sgn_eq)
  also have "\<dots> = \<bar>of_int m - \<bar>q\<bar> / pow2 e\<bar> * pow2 e"
  proof -
    have "of_int m * pow2 e - \<bar>q\<bar> = (of_int m - \<bar>q\<bar> / pow2 e) * pow2 e"
      using pe by (simp add: field_simps)
    then show ?thesis using pe by (simp add: abs_mult)
  qed
  also have "\<dots> \<le> 1 / 2 * pow2 e"
    using round_half_even_err [of "\<bar>q\<bar> / pow2 e"] pe
    by (intro mult_right_mono) (auto simp: m_def)
  also have "\<dots> = pow2 (e - 1)"
    using pow2_diff [of e 1] by (simp add: pow2_def)
  also have "\<dots> \<le> pow2 (K - 54)"
    using e by (intro pow2_mono) simp
  finally show ?thesis .
qed

lemma round_double_of_int:
  assumes "\<bar>i\<bar> < 2 ^ 53"
  shows "round_double (of_int i) = of_int i"
proof (cases "i = 0")
  case True
  then show ?thesis by (simp add: round_double_def)
next
  case False
  let ?q = "of_int i :: rat"
  define e where "e = max (ilog2 ?q - 52) (- 1074)"
  have q0: "?q \<noteq> 0" using False by simp
  have "\<bar>?q\<bar> < pow2 53"
  proof -
    have "(of_int \<bar>i\<bar> :: rat) < of_int (2 ^ 53)"
      using assms by (simp only: of_int_less_iff)
    then show ?thesis by (simp add: pow2_def)
  qed
  then have "pow2 (ilog2 ?q) < pow2 53"
    using ilog2_lower [OF q0] by linarith
  then have "ilog2 ?q < 53" by (rule pow2_less_imp)
  then have e: "e \<le> 0" by (simp add: e_def)
  have pe: "pow2 e = 1 / 2 ^ nat (- e)"
    using e by (cases "e = 0") (simp_all add: pow2_def)
  have "\<bar>?q\<bar> / pow2 e = of_int (\<bar>i\<bar> * 2 ^ nat (- e))"
    by (simp add: pe)
  then have m: "round_half_even (\<bar>?q\<bar> / pow2 e) = \<bar>i\<bar> * 2 ^ nat (- e)"
    by (simp only: round_half_even_of_int)
  have "round_double ?q = sgn ?q * of_int (\<bar>i\<bar> * 2 ^ nat (- e)) * pow2 e"
    using q0 m by (simp add: round_double_def Let_def e_def)
  also have "\<dots> = sgn ?q * \<bar>?q\<bar>"
    by (simp add: pe)
  also have "\<dots> = ?q"
    by (rule mult_sgn_abs)
  finally show ?thesis .
qed

lemma modf_trunc: "modf x = (x - of_int (trunc x), of_int (trunc x))"
  by (simp add: modf_def trunc_def Let_def)

lemma trunc_bounds: "\<bar>of_int (trunc x)\<bar> \<le> \<bar>x\<bar>" "\<bar>x - of_int (trunc x)\<bar> < 1"
  unfolding trunc_def by (auto; linarith)+

lemma fadd_int_1:
  assumes "\<bar>T\<bar> + 1 < 2 ^ 53"
  shows "fadd (of_int T) 1 = of_int (T + 1)" "fadd (of_int T) (- 1) = of_int (T - 1)"
proof -
  have a: "\<bar>T + 1\<bar> < 2 ^ 53" and b: "\<bar>T - 1\<bar> < 2 ^ 53"
    using assms by linarith+
  show "fadd (of_int T) 1 = of_int (T + 1)"
    using round_double_of_int [OF a] by (simp add: fadd_def)
  show "fadd (of_int T) (- 1) = of_int (T - 1)"
    using round_double_of_int [OF b] by (simp add: fadd_def)
qed

lemma utcfromtimestamp_exact:
  assumes us: "round_half_even (fmul (x - of_int (trunc x)) 1000000) = j"
      and T: "\<bar>trunc x\<bar> + 1 < 2 ^ 53"
      and lo: "0 \<le> 719162 * US_PER_DAY + trunc x * 1000000 + j"
      and hi: "719162 * US_PER_DAY + trunc x * 1000000 + j < MAX_MICROS"
  shows "utcfromtimestamp x =
           Inr \<lparr>micros = 719162 * US_PER_DAY + trunc x * 1000000 + j, tzinfo = None\<rparr>"
proof -
  note f = fadd_int_1 [OF T]
  have r: "- (2 ^ 63) \<le> (of_int i :: rat) \<and> (of_int i :: rat) < 2 ^ 63 \<and>
           of_int GMTIME_MIN \<le> (of_int i :: rat) \<and> (of_int i :: rat) \<le> of_int GMTIME_MAX"
    if "\<bar>i\<bar> < 2 ^ 53" for i :: int
  proof -
    have "- (2 ^ 63) \<le> i \<and> i < 2 ^ 63 \<and> GMTIME_MIN \<le> i \<and> i \<le> GMTIME_MAX"
      using that by (simp add: GMTIME_MIN_def GMTIME_MAX_def abs_less_iff)
    then have "(of_int (- (2 ^ 63)) :: rat) \<le> of_int i \<and> (of_int i :: rat) < of_int (2 ^ 63) \<and>
               (of_int GMTIME_MIN :: rat) \<le> of_int i \<and> (of_int i :: rat) \<le> of_int GMTIME_MAX"
      by (simp only: of_int_le_iff of_int_less_iff)
    then show ?thesis by simp
  qed
  have r0: "\<bar>trunc x\<bar> < 2 ^ 53" and r1: "\<bar>trunc x + 1\<bar> < 2 ^ 53"
    and r2: "\<bar>trunc x - 1\<bar> < 2 ^ 53"
    using T by linarith+
  consider "1000000 \<le> j" | "j < 0" | "0 \<le> j" "j < 1000000" by linarith
  then show ?thesis
  proof cases
    case 1
    then show ?thesis
      using lo hi r [OF r1]
      by (simp add: utcfromtimestamp_def modf_trunc Let_def us f algebra_simps)
  next
    case 2
    then show ?thesis
      using lo hi r [OF r2]
      by (simp add: utcfromtimestamp_def modf_trunc Let_def us f algebra_simps)
  next
    case 3
    then show ?thesis
      using lo hi r [OF r0]
      by (simp add: utcfromtimestamp_def modf_trunc Let_def us algebra_simps)
  qed
qed

text \<open>
  Claim C2, amended.  For every multiple of 10 \<open>t\<close> within \<open>2 ^ 55\<close> ticks of the Unix
  epoch constant (instants from late 1855 to early 2084), \<open>ticks_to_datetime t\<close>
  succeeds and \<open>datetime_to_ticks\<close> maps its result back to \<open>t\<close>: in that range the
  rounding errors of the int-to-float conversion, of the division by \<open>1e7\<close> and of the
  scaling of the fraction stay below half a microsecond.
\<close>

theorem ticks_round_trip:
  assumes m10: "t mod 10 = 0"
      and rng: "\<bar>t - 621355968000000000\<bar> < 2 ^ 55"
  shows "\<exists>d. ticks_to_datetime t = Inr d \<and> datetime_to_ticks d = Inr t"
proof -
  define n where "n = t - EPOCH"
  define k where "k = n div 10"
  have nk: "n = 10 * k"
    using m10 unfolding n_def k_def EPOCH_def by presburger
  have nb: "\<bar>n\<bar> < 2 ^ 55"
    using rng by (simp add: n_def EPOCH_def)
  have kb: "\<bar>k\<bar> < 3602879701896397"
    using nb nk by simp
  define x0 where "x0 = round_double (of_int n)"
  have nq: "\<bar>of_int n :: rat\<bar> < pow2 55"
  proof -
    have "(of_int \<bar>n\<bar> :: rat) < of_int (2 ^ 55)"
      using nb by (simp only: of_int_less_iff)
    then show ?thesis by (simp add: pow2_def)
  qed
  have e0: "\<bar>x0 - of_int n\<bar> \<le> 2"
    using round_double_err [OF nq] by (simp add: x0_def pow2_def)
  have x0b: "\<bar>x0\<bar> < 36028797018963970"
    using e0 nq by (simp add: pow2_def)
  have fl: "float_of_int n = Inr x0"
  proof -
    have "\<bar>x0\<bar> < pow2 56" using x0b by (simp add: pow2_def)
    also have "pow2 56 \<le> pow2 1024" by (rule pow2_mono) simp
    finally show ?thesis by (simp add: float_of_int_def x0_def Let_def)
  qed
  define x where "x = fdiv x0 10000000"
  have q1: "\<bar>x0 / 10000000\<bar> < pow2 32"
    using x0b by (simp add: pow2_def)
  have e1: "\<bar>x - x0 / 10000000\<bar> \<le> 1 / 4194304"
    using round_double_err [OF q1] by (simp add: x_def fdiv_def pow2_def)
  have ex: "\<bar>x - of_int k / 1000000\<bar> \<le> 1 / 4194304 + 1 / 5000000"
  proof -
    have "of_int n / 10000000 = (of_int k / 1000000 :: rat)"
      by (simp add: nk)
    moreover have "\<bar>x0 / 10000000 - of_int n / 10000000\<bar> \<le> 1 / 5000000"
      using e0 by (simp add: abs_le_iff field_simps)
    ultimately show ?thesis using e1 by linarith
  qed
  define T where "T = trunc x"
  define j where "j = k - T * 1000000"
  have xb: "\<bar>x\<bar> < 3602879702"
  proof -
    define r where "r = (of_int k / 1000000 :: rat)"
    have "(of_int \<bar>k\<bar> :: rat) < of_int 3602879701896397"
      using kb by (simp only: of_int_less_iff)
    then have "\<bar>r * 1000000\<bar> < 3602879701896397"
      by (simp add: r_def)
    moreover have "\<bar>x - r\<bar> \<le> 1 / 4194304 + 1 / 5000000"
      using ex by (simp only: r_def)
    ultimately show ?thesis by linarith
  qed
  have Tb: "\<bar>T\<bar> < 3602879702"
  proof -
    have "\<bar>(of_int T :: rat)\<bar> < of_int 3602879702"
      using trunc_bounds(1) [of x] xb by (simp add: T_def)
    then show ?thesis by (simp only: of_int_less_iff flip: of_int_abs)
  qed
  let ?f = "(x - of_int T) * 1000000"
  have fb: "\<bar>?f\<bar> < pow2 20"
    using trunc_bounds(2) [of x] by (simp add: T_def pow2_def abs_mult)
  have e2: "\<bar>fmul (x - of_int T) 1000000 - ?f\<bar> \<le> 1 / 17179869184"
    using round_double_err [OF fb] by (simp add: fmul_def pow2_def)
  have fj: "\<bar>?f - of_int j\<bar> \<le> 1000000 / 4194304 + 1 / 5"
  proof -
    have eq: "?f - of_int j = (x - of_int k / 1000000) * 1000000"
      by (simp add: j_def algebra_simps)
    have "\<bar>?f - of_int j\<bar> = \<bar>(x - of_int k / 1000000) * 1000000\<bar>"
      by (simp only: eq)
    also have "\<dots> = \<bar>x - of_int k / 1000000\<bar> * 1000000"
      by (simp only: abs_mult abs_numeral)
    also have "\<dots> \<le> (1 / 4194304 + 1 / 5000000) * 1000000"
      using ex by (intro mult_right_mono) auto
    also have "\<dots> = 1000000 / 4194304 + 1 / 5"
      by simp
    finally show ?thesis .
  qed
  have us: "round_half_even (fmul (x - of_int (trunc x)) 1000000) = j"
    unfolding T_def [symmetric]
    by (rule round_half_even_near) (use e2 fj in linarith)
  have Tk: "trunc x * 1000000 + j = k"
    by (simp add: j_def T_def)
  have "utcfromtimestamp x =
          Inr \<lparr>micros = 719162 * US_PER_DAY + trunc x * 1000000 + j, tzinfo = None\<rparr>"
    using Tb kb
    by (intro utcfromtimestamp_exact us)
       (simp_all add: T_def [symmetric] j_def US_PER_DAY_def MAX_MICROS_def)
  then have u: "utcfromtimestamp x = Inr \<lparr>micros = 62135596800000000 + k, tzinfo = None\<rparr>"
    using Tk by (simp add: US_PER_DAY_def algebra_simps)
  have td: "ticks_to_datetime t = Inr \<lparr>micros = 62135596800000000 + k, tzinfo = None\<rparr>"
    using fl u by (simp add: ticks_to_datetime_def n_def [symmetric] x_def)
  have "datetime_to_ticks \<lparr>micros = 62135596800000000 + k, tzinfo = None\<rparr> = Inr t"
    using nk by (simp add: datetime_to_ticks_naive n_def EPOCH_def)
  with td show ?thesis by blast
qed

theorem ticks_round_trip_witness:
  "(637134336000000010 :: int) mod 10 = 0 \<and>
   (\<exists>d. ticks_to_datetime 637134336000000010 = Inr d \<and>
        datetime_to_ticks d = Inr 637134336000000010)"
proof -
  have a: "(637134336000000010 :: int) mod 10 = 0" by simp
  have b: "\<bar>637134336000000010 - 621355968000000000 :: int\<bar> < 2 ^ 55" by simp
  from ticks_round_trip [OF a b] a show ?thesis by blast
qed

text \<open>
  Claim C2, as stated, fails: 793154659840000010 is a multiple of 10, but the float
  division of line 87 loses its last microsecond, and the round trip returns
  793154659840000000 (the instant 2514-05-30 01:53:04).
\<close>

theorem ticks_round_trip_fails:
  "ticks_to_datetime 793154659840000010 = Inr \<lparr>micros = 79315465984000000, tzinfo = None\<rparr> \<and>
   datetime_to_ticks \<lparr>micros = 79315465984000000, tzinfo = None\<rparr> = Inr 793154659840000000"
proof -
  have "ticks_to_datetime 793154659840000010 = Inr \<lparr>micros = 79315465984000000, tzinfo = None\<rparr>"
    by code_simp
  then show ?thesis
    by (simp add: datetime_to_ticks_naive)
qed

section \<open>Properties of the channel and the driver\<close>



lemma get_some_time_unfold:
  "get_some_time env type path w =
     (let w2 = w\<lparr>trace := trace w @ [Write (''Get'' @ type @ ''Time'' @ [TAB] @ abspath env path @ [LF])],
                 response := snd (take_line (response w))\<rparr>
      in case utf8_decode (fst (take_line (response w))) of
           None \<Rightarrow> (Inl UnicodeDecodeError, w2)
         | Some decoded \<Rightarrow>
             (let tokens = split (of_char TAB) (rstrip (ascii_str [CR, LF]) decoded)
              in if length tokens \<noteq> 2 \<or> tokens ! 0 \<noteq> ascii_str ''ok''
                 then (Inl Exception, w2)
                 else case py_int (tokens ! 1) of
                        None \<Rightarrow> (Inl ValueError, w2)
                      | Some n \<Rightarrow> (Inr n, w2)))"
  by (cases "take_line (response w)") (simp add: get_some_time_def readline_def emit_def Let_def)

lemma set_some_time_unfold:
  "set_some_time env type path ticks w =
     (let w2 = w\<lparr>trace := trace w @ [Write (''Set'' @ type @ ''Time'' @ [TAB] @ abspath env path @ [TAB]
                              @ py_str ticks @ [LF])],
                 response := snd (take_line (response w))\<rparr>
      in case utf8_decode (fst (take_line (response w))) of
           None \<Rightarrow> (Inl UnicodeDecodeError, w2)
         | Some decoded \<Rightarrow>
             if rstrip (ascii_str [CR, LF]) decoded \<noteq> ascii_str ''ok''
             then (Inl Exception, w2) else (Inr (), w2))"
  by (cases "take_line (response w)") (simp add: set_some_time_def readline_def emit_def Let_def)

lemma two_tokens: "(length ts = 2 \<and> ts ! 0 = a) \<longleftrightarrow> (\<exists>s. ts = [a, s])"
  by (cases ts; cases "tl ts") auto

text \<open>
  Claim C5.  Get returns \<open>n\<close> exactly when the response line decodes, and the decoded
  line, stripped of its line terminators and split on TAB, is the token \<open>ok\<close> followed
  by one token that \<open>int\<close> parses to \<open>n\<close>.  On every other line it fails: with the
  \<open>UnicodeDecodeError\<close> of \<open>decode\<close> when the bytes are not UTF-8, with the
  \<open>Exception\<close> of line 62 when the decoded line is not \<open>ok\<close> plus exactly one more
  token, and with the \<open>ValueError\<close> of \<open>int\<close> when the second token is not numeric.
\<close>

theorem get_some_time_result:
  "let r = fst (get_some_time env type path w);
       decoded = utf8_decode (next_line w);
       tokens = map_option (\<lambda>d. split (of_char TAB) (rstrip (ascii_str [CR, LF]) d)) decoded
   in (r = Inr n \<longleftrightarrow> (\<exists>s. tokens = Some [ascii_str ''ok'', s] \<and> py_int s = Some n)) \<and>
      ((\<exists>e. r = Inl e) \<longleftrightarrow>
         \<not> (\<exists>s k. tokens = Some [ascii_str ''ok'', s] \<and> py_int s = Some k)) \<and>
      (decoded = None \<longrightarrow> r = Inl UnicodeDecodeError) \<and>
      (decoded \<noteq> None \<and> \<not> (\<exists>s. tokens = Some [ascii_str ''ok'', s]) \<longrightarrow> r = Inl Exception) \<and>
      (\<forall>s. tokens = Some [ascii_str ''ok'', s] \<and> py_int s = None \<longrightarrow> r = Inl ValueError)"
proof (cases "utf8_decode (fst (take_line (response w)))")
  case None
  then show ?thesis
    unfolding next_line_def get_some_time_unfold Let_def by simp
next
  case (Some d)
  define tokens where "tokens = split (of_char TAB) (rstrip (ascii_str [CR, LF]) d)"
  show ?thesis
  proof (cases "\<exists>s. tokens = [ascii_str ''ok'', s]")
    case True
    then obtain s where s: "tokens = [ascii_str ''ok'', s]" by blast
    then show ?thesis
      unfolding next_line_def get_some_time_unfold Let_def Some option.case option.map
        tokens_def [symmetric]
      by (cases "py_int s") auto
  next
    case False
    then have "length tokens \<noteq> 2 \<or> tokens ! 0 \<noteq> ascii_str ''ok''"
      using two_tokens [of tokens "ascii_str ''ok''"] by blast
    with False show ?thesis
      unfolding next_line_def get_some_time_unfold Let_def Some option.case option.map
        tokens_def [symmetric]
      by auto
  qed
qed

theorem get_some_time_result_witness:
  "fst (get_some_time print_env ''Access'' ''test.txt''
          \<lparr>trace = [], response = ''ok'' @ [TAB] @ ''637134336000000000'' @ [LF]\<rparr>)
     = Inr 637134336000000000 \<and>
   fst (get_some_time print_env ''Access'' ''test.txt''
          \<lparr>trace = [], response = ''ok'' @ [TAB, CHR 0xD9, CHR 0xA1, CHR 0xD9, CHR 0xA2, LF]\<rparr>)
     = Inr 12 \<and>
   fst (get_some_time print_env ''Access'' ''test.txt''
          \<lparr>trace = [], response = ''fail'' @ [TAB] @ ''bad path'' @ [LF]\<rparr>)
     = Inl Exception \<and>
   fst (get_some_time print_env ''Access'' ''test.txt''
          \<lparr>trace = [], response = ''ok'' @ [TAB] @ ''12'' @ [CHR 0x1C, LF]\<rparr>)
     = Inl ValueError \<and>
   fst (get_some_time print_env ''Access'' ''test.txt''
          \<lparr>trace = [], response = [CHR 0xFF, LF]\<rparr>)
     = Inl UnicodeDecodeError"
proof -
  let ?w1 = "\<lparr>trace = [], response = ''ok'' @ [TAB] @ ''637134336000000000'' @ [LF]\<rparr>"
  let ?w2 = "\<lparr>trace = [], response = ''ok'' @ [TAB, CHR 0xD9, CHR 0xA1, CHR 0xD9, CHR 0xA2, LF]\<rparr>"
  let ?w3 = "\<lparr>trace = [], response = ''fail'' @ [TAB] @ ''bad path'' @ [LF]\<rparr>"
  let ?w4 = "\<lparr>trace = [], response = ''ok'' @ [TAB] @ ''12'' @ [CHR 0x1C, LF]\<rparr>"
  let ?w5 = "\<lparr>trace = [], response = [CHR 0xFF, LF]\<rparr>"
  let ?tok = "\<lambda>w. map_option (\<lambda>d. split (of_char TAB) (rstrip (ascii_str [CR, LF]) d))
                  (utf8_decode (next_line w))"
  have t1: "?tok ?w1 = Some [ascii_str ''ok'', ascii_str ''637134336000000000'']"
    by code_simp
  have p1: "py_int (ascii_str ''637134336000000000'') = Some 637134336000000000"
    by code_simp
  have t2: "?tok ?w2 = Some [ascii_str ''ok'', [1633, 1634]]"
    by code_simp
  have p2: "py_int [1633, 1634] = Some 12"
    by code_simp
  have t3: "?tok ?w3 = Some [ascii_str ''fail'', ascii_str ''bad path'']"
    by code_simp
  have n3: "ascii_str ''fail'' \<noteq> ascii_str ''ok''"
    by code_simp
  have d3: "utf8_decode (next_line ?w3) \<noteq> None"
    by code_simp
  have t4: "?tok ?w4 = Some [ascii_str ''ok'', [49, 50, 28]]"
    by code_simp
  have p4: "py_int [49, 50, 28] = None"
    by code_simp
  have d5: "utf8_decode (next_line ?w5) = None"
    by code_simp
  have a: "fst (get_some_time print_env ''Access'' ''test.txt'' ?w1) = Inr 637134336000000000"
    using get_some_time_result [of print_env "''Access''" "''test.txt''" ?w1 637134336000000000]
    unfolding Let_def t1 using p1 by blast
  have b: "fst (get_some_time print_env ''Access'' ''test.txt'' ?w2) = Inr 12"
    using get_some_time_result [of print_env "''Access''" "''test.txt''" ?w2 12]
    unfolding Let_def t2 using p2 by blast
  have c: "fst (get_some_time print_env ''Access'' ''test.txt'' ?w3) = Inl Exception"
    using get_some_time_result [of print_env "''Access''" "''test.txt''" ?w3 0]
    unfolding Let_def t3 using n3 d3 by simp
  have d: "fst (get_some_time print_env ''Access'' ''test.txt'' ?w4) = Inl ValueError"
    using get_some_time_result [of print_env "''Access''" "''test.txt''" ?w4 0]
    unfolding Let_def t4 using p4 by blast
  have e: "fst (get_some_time print_env ''Access'' ''test.txt'' ?w5) = Inl UnicodeDecodeError"
    using get_some_time_result [of print_env "''Access''" "''test.txt''" ?w5 0]
    unfolding Let_def using d5 by blast
  from a b c d e show ?thesis by blast
qed

lemma io_bind_Inr: "m w = (Inr x, w1) \<Longrightarrow> io_bind m f w = f x w1"
  by (simp add: io_bind_def)

lemma io_bind_print: "io_bind (io_print s) f w = f () (w\<lparr>trace := trace w @ [Print s]\<rparr>)"
  by (simp add: io_bind_def io_print_def emit_def)

lemma io_bind_return: "io_bind (io_return x) f = f x"
  by (rule ext) (simp add: io_bind_def io_return_def)

lemma io_bind_lift_Inr: "io_bind (io_lift (Inr x)) f w = f x w"
  by (simp add: io_bind_def io_lift_def)

lemma usage_run:
  "usage w = (Inl (SystemExit 1), w\<lparr>trace := trace w @ [Print USAGE_LINE, Print EXAMPLE_LINE]\<rparr>)"
  by (simp add: usage_def io_bind_print io_raise_def)

lemma check_commands_run:
  "check_commands cs w =
     (if set cs \<subseteq> set ''pmacb'' then (Inr (), w) else usage w)"
  by (induction cs) (auto simp: io_return_def)

lemma get_some_time_ok:
  assumes "take_line (response w) = (l, r)"
      and "utf8_decode l = Some d"
      and "split (of_char TAB) (rstrip (ascii_str [CR, LF]) d) = [ascii_str ''ok'', s]"
      and "py_int s = Some n"
  shows "get_some_time env type path w =
           (Inr n, w\<lparr>trace := trace w @ [Write (''Get'' @ type @ ''Time'' @ [TAB] @ abspath env path @ [LF])],
                     response := r\<rparr>)"
  using assms by (simp add: get_some_time_unfold)

lemma io_bind_assoc: "io_bind (io_bind m g) h = io_bind m (\<lambda>x. io_bind (g x) h)"
  by (rule ext) (simp add: io_bind_def split: prod.splits sum.splits)

lemma drop_1_Cons: "drop 1 (x # xs) = xs"
  by simp

lemma io_bind_get_ok:
  assumes "take_line (response w) = (l, r)"
      and "utf8_decode l = Some d"
      and "split (of_char TAB) (rstrip (ascii_str [CR, LF]) d) = [ascii_str ''ok'', s]"
      and "py_int s = Some n"
  shows "io_bind (get_some_time env type path) f w =
           f n (w\<lparr>trace := trace w @ [Write (''Get'' @ type @ ''Time'' @ [TAB] @ abspath env path @ [LF])],
                  response := r\<rparr>)"
  using get_some_time_ok [OF assms] by (simp add: io_bind_def)

text \<open>
  Claim C8.  With the flag token \<open>-p\<close> on an existing regular file, and an accessor
  that starts, answers the three requests with \<open>ok\<close> and a tick value that the codec
  can convert, and exits with status 0: the program sends the Get requests for the
  access, modification and creation time, prints the three labelled lines, and ends
  with exit status 0.  No fourth argument is read: nothing is assumed about one.
\<close>

theorem print_only_run:
  assumes "3 \<le> length (sys_argv env)"
      and "sys_argv env ! 2 = ''-p''"
      and "isfile env (sys_argv env ! 1)"
      and "launches env"
      and "returncode env = 0"
      and "take_line (child_output env) = (l1, r1)"
      and "utf8_decode l1 = Some d1"
      and "split (of_char TAB) (rstrip (ascii_str [CR, LF]) d1) = [ascii_str ''ok'', s1]"
      and "py_int s1 = Some access_time"
      and "take_line r1 = (l2, r2)"
      and "utf8_decode l2 = Some d2"
      and "split (of_char TAB) (rstrip (ascii_str [CR, LF]) d2) = [ascii_str ''ok'', s2]"
      and "py_int s2 = Some modification_time"
      and "take_line r2 = (l3, r3)"
      and "utf8_decode l3 = Some d3"
      and "split (of_char TAB) (rstrip (ascii_str [CR, LF]) d3) = [ascii_str ''ok'', s3]"
      and "py_int s3 = Some creation_time"
      and "ticks_to_datetime access_time = Inr a"
      and "ticks_to_datetime modification_time = Inr m"
      and "ticks_to_datetime creation_time = Inr b"
  shows "main env =
           (Inr (),
            \<lparr>trace =
               [Popen EXECUTABLE_PATH,
                Print ''DEBUG: made it here'',
                Write (''GetAccessTime'' @ [TAB] @ abspath env (sys_argv env ! 1) @ [LF]),
                Write (''GetModificationTime'' @ [TAB] @ abspath env (sys_argv env ! 1) @ [LF]),
                Write (''GetCreationTime'' @ [TAB] @ abspath env (sys_argv env ! 1) @ [LF]),
                Print (''access_time:       '' @ str_datetime a),
                Print (''modification_time: '' @ str_datetime m),
                Print (''birth_time:        '' @ str_datetime b),
                Close],
             response = r3\<rparr>) \<and>
         exit_status (fst (main env)) = 0"
proof -
  let ?path = "sys_argv env ! 1"
  let ?w0 = "\<lparr>trace = [Popen EXECUTABLE_PATH, Print ''DEBUG: made it here''],
              response = child_output env\<rparr>"
  have q: "query_and_print env ?path ?w0 =
             (Inr (),
              \<lparr>trace =
                 [Popen EXECUTABLE_PATH,
                  Print ''DEBUG: made it here'',
                  Write (''GetAccessTime'' @ [TAB] @ abspath env ?path @ [LF]),
                  Write (''GetModificationTime'' @ [TAB] @ abspath env ?path @ [LF]),
                  Write (''GetCreationTime'' @ [TAB] @ abspath env ?path @ [LF]),
                  Print (''access_time:       '' @ str_datetime a),
                  Print (''modification_time: '' @ str_datetime m),
                  Print (''birth_time:        '' @ str_datetime b)],
               response = r3\<rparr>)"
    using assms(6-20)
    by (simp add: query_and_print_def get_access_time_def get_modification_time_def
        get_creation_time_def io_bind_get_ok io_bind_lift_Inr
        io_bind_print io_print_def emit_def)
  have body: "main_body env \<lparr>trace = [Popen EXECUTABLE_PATH], response = child_output env\<rparr>
                = (Inr (),
              \<lparr>trace =
                 [Popen EXECUTABLE_PATH,
                  Print ''DEBUG: made it here'',
                  Write (''GetAccessTime'' @ [TAB] @ abspath env ?path @ [LF]),
                  Write (''GetModificationTime'' @ [TAB] @ abspath env ?path @ [LF]),
                  Write (''GetCreationTime'' @ [TAB] @ abspath env ?path @ [LF]),
                  Print (''access_time:       '' @ str_datetime a),
                  Print (''modification_time: '' @ str_datetime m),
                  Print (''birth_time:        '' @ str_datetime b)],
               response = r3\<rparr>)"
    using assms(1-3)
    by (simp add: main_body_def Let_def startswith_def io_bind_print check_commands_run
        io_bind_Inr [of "query_and_print env ?path", OF q] io_bind_return io_return_def
        io_bind_assoc drop_1_Cons del: One_nat_def)
  have "main env = (Inr (),
            \<lparr>trace =
               [Popen EXECUTABLE_PATH,
                Print ''DEBUG: made it here'',
                Write (''GetAccessTime'' @ [TAB] @ abspath env ?path @ [LF]),
                Write (''GetModificationTime'' @ [TAB] @ abspath env ?path @ [LF]),
                Write (''GetCreationTime'' @ [TAB] @ abspath env ?path @ [LF]),
                Print (''access_time:       '' @ str_datetime a),
                Print (''modification_time: '' @ str_datetime m),
                Print (''birth_time:        '' @ str_datetime b),
                Close],
             response = r3\<rparr>)"
    using assms(4,5)
    by (simp add: main_def accessor_init_def accessor_close_def emit_def body)
  then show ?thesis
    by (simp add: exit_status_def)
qed

theorem print_only_run_witness:
  "main print_env =
     (Inr (),
      \<lparr>trace =
         [Popen ''WindowsTimestampAccessor.exe'',
          Print ''DEBUG: made it here'',
          Write (''GetAccessTime'' @ [TAB] @ ''/work/test.txt'' @ [LF]),
          Write (''GetModificationTime'' @ [TAB] @ ''/work/test.txt'' @ [LF]),
          Write (''GetCreationTime'' @ [TAB] @ ''/work/test.txt'' @ [LF]),
          Print ''access_time:       2020-01-01 00:00:00'',
          Print ''modification_time: 2000-02-28 13:03:30'',
          Print ''birth_time:        1970-01-01 00:00:00'',
          Close],
       response = []\<rparr>) \<and>
   exit_status (fst (main print_env)) = 0"
proof -
  have h1: "3 \<le> length (sys_argv print_env)" by code_simp
  have h2: "sys_argv print_env ! 2 = ''-p''" by code_simp
  have h3: "isfile print_env (sys_argv print_env ! 1)" by code_simp
  have h4: "launches print_env" by code_simp
  have h5: "returncode print_env = 0" by code_simp
  have h6: "take_line (child_output print_env) =
              (''ok'' @ [TAB] @ ''637134336000000000'' @ [LF],
               ''ok'' @ [TAB] @ ''630873398100000000'' @ [CR, LF]
                 @ ''ok'' @ [TAB] @ ''621355968000000000'' @ [LF])"
    by code_simp
  have g1: "utf8_decode (''ok'' @ [TAB] @ ''637134336000000000'' @ [LF])
              = Some (ascii_str (''ok'' @ [TAB] @ ''637134336000000000'' @ [LF]))"
    by code_simp
  have h7: "split (of_char TAB) (rstrip (ascii_str [CR, LF])
              (ascii_str (''ok'' @ [TAB] @ ''637134336000000000'' @ [LF])))
              = [ascii_str ''ok'', ascii_str ''637134336000000000'']"
    by code_simp
  have h8: "py_int (ascii_str ''637134336000000000'') = Some 637134336000000000" by code_simp
  have h9: "take_line (''ok'' @ [TAB] @ ''630873398100000000'' @ [CR, LF]
                 @ ''ok'' @ [TAB] @ ''621355968000000000'' @ [LF]) =
              (''ok'' @ [TAB] @ ''630873398100000000'' @ [CR, LF],
               ''ok'' @ [TAB] @ ''621355968000000000'' @ [LF])"
    by code_simp
  have g2: "utf8_decode (''ok'' @ [TAB] @ ''630873398100000000'' @ [CR, LF])
              = Some (ascii_str (''ok'' @ [TAB] @ ''630873398100000000'' @ [CR, LF]))"
    by code_simp
  have h10: "split (of_char TAB) (rstrip (ascii_str [CR, LF])
              (ascii_str (''ok'' @ [TAB] @ ''630873398100000000'' @ [CR, LF])))
              = [ascii_str ''ok'', ascii_str ''630873398100000000'']"
    by code_simp
  have h11: "py_int (ascii_str ''630873398100000000'') = Some 630873398100000000" by code_simp
  have h12: "take_line (''ok'' @ [TAB] @ ''621355968000000000'' @ [LF]) =
              (''ok'' @ [TAB] @ ''621355968000000000'' @ [LF], [])"
    by code_simp
  have g3: "utf8_decode (''ok'' @ [TAB] @ ''621355968000000000'' @ [LF])
              = Some (ascii_str (''ok'' @ [TAB] @ ''621355968000000000'' @ [LF]))"
    by code_simp
  have h13: "split (of_char TAB) (rstrip (ascii_str [CR, LF])
              (ascii_str (''ok'' @ [TAB] @ ''621355968000000000'' @ [LF])))
              = [ascii_str ''ok'', ascii_str ''621355968000000000'']"
    by code_simp
  have h14: "py_int (ascii_str ''621355968000000000'') = Some 621355968000000000" by code_simp
  have h15: "ticks_to_datetime 637134336000000000 = Inr (mk_datetime 2020 1 1 0 0 0 0 None)"
    by code_simp
  have h16: "ticks_to_datetime 630873398100000000 = Inr (mk_datetime 2000 2 28 13 3 30 0 None)"
    by code_simp
  have h17: "ticks_to_datetime 621355968000000000 = Inr (mk_datetime 1970 1 1 0 0 0 0 None)"
    by code_simp
  have s1: "str_datetime (mk_datetime 2020 1 1 0 0 0 0 None) = ''2020-01-01 00:00:00''"
    by code_simp
  have s2: "str_datetime (mk_datetime 2000 2 28 13 3 30 0 None) = ''2000-02-28 13:03:30''"
    by code_simp
  have s3: "str_datetime (mk_datetime 1970 1 1 0 0 0 0 None) = ''1970-01-01 00:00:00''"
    by code_simp
  have p: "abspath print_env (sys_argv print_env ! 1) = ''/work/test.txt''"
    by code_simp
  have e: "EXECUTABLE_PATH = ''WindowsTimestampAccessor.exe''"
    by code_simp
  from print_only_run [OF h1 h2 h3 h4 h5 h6 g1 h7 h8 h9 g2 h10 h11 h12 g3 h13 h14 h15 h16 h17]
  show ?thesis
    unfolding s1 s2 s3 p e by (simp add: exit_status_def)
qed








lemma io_bind_check:
  "io_bind (check_commands cs) f w =
     (if set cs \<subseteq> set ''pmacb'' then f () w else usage w)"
  by (simp add: io_bind_def check_commands_run usage_run)






lemma io_bind_set_ok:
  assumes "take_line (response w) = (l, r)"
      and "utf8_decode l = Some d"
      and "rstrip (ascii_str [CR, LF]) d = ascii_str ''ok''"
  shows "io_bind (set_some_time env type path ticks) f w =
           f () (w\<lparr>trace := trace w @ [Write (''Set'' @ type @ ''Time'' @ [TAB] @ abspath env path
                                               @ [TAB] @ py_str ticks @ [LF])],
                   response := r\<rparr>)"
  using assms by (simp add: io_bind_def set_some_time_unfold)

lemma set_ma_run:
  assumes "4 \<le> length (sys_argv env)"
      and "sys_argv env ! 2 = ''-ma''"
      and "isfile env (sys_argv env ! 1)"
      and "launches env"
      and "returncode env = 0"
      and "strptime env (sys_argv env ! 3) = Some date"
      and "take_line (child_output env) = (l1, r1)"
      and "utf8_decode l1 = Some d1"
      and "rstrip (ascii_str [CR, LF]) d1 = ascii_str ''ok''"
      and "take_line r1 = (l2, r2)"
      and "utf8_decode l2 = Some d2"
      and "rstrip (ascii_str [CR, LF]) d2 = ascii_str ''ok''"
  shows "main env =
           (Inr (),
            \<lparr>trace =
               [Popen EXECUTABLE_PATH,
                Print ''DEBUG: made it here'',
                Write (''SetModificationTime'' @ [TAB] @ abspath env (sys_argv env ! 1) @ [TAB]
                         @ str_datetime date @ [LF]),
                Write (''SetAccessTime'' @ [TAB] @ abspath env (sys_argv env ! 1) @ [TAB]
                         @ str_datetime date @ [LF]),
                Close],
             response = r2\<rparr>)"
proof -
  have "main_body env \<lparr>trace = [Popen EXECUTABLE_PATH], response = child_output env\<rparr> =
           (Inr (),
            \<lparr>trace =
               [Popen EXECUTABLE_PATH,
                Print ''DEBUG: made it here'',
                Write (''SetModificationTime'' @ [TAB] @ abspath env (sys_argv env ! 1) @ [TAB]
                         @ str_datetime date @ [LF]),
                Write (''SetAccessTime'' @ [TAB] @ abspath env (sys_argv env ! 1) @ [TAB]
                         @ str_datetime date @ [LF])],
             response = r2\<rparr>)"
    using assms(1-3,6-12)
    by (simp add: main_body_def Let_def startswith_def io_bind_print io_bind_check
        io_bind_return io_bind_assoc drop_1_Cons datetime_bool_def
        set_modification_time_def set_access_time_def io_bind_set_ok py_str_def
        io_return_def del: One_nat_def)
  with assms(4,5) show ?thesis
    by (simp add: main_def accessor_init_def accessor_close_def emit_def)
qed

text \<open>
  Claim C1, on the code.  The run \<open>-ma "2000/02/28 13:03:30 +0000"\<close> on an existing file
  does send exactly two Set requests, modification first and access second, and ends
  normally; but each request carries \<open>str(date)\<close>, the text
  \<open>2000-02-28 13:03:30+00:00\<close>, because lines 144 and 146 pass the datetime object
  itself where the Set methods expect the tick value (630873398100000000 for this
  instant).
\<close>

theorem set_run_sends_datetime_text:
  "main set_env =
     (Inr (),
      \<lparr>trace =
         [Popen ''WindowsTimestampAccessor.exe'',
          Print ''DEBUG: made it here'',
          Write (''SetModificationTime'' @ [TAB] @ ''/work/test.txt'' @ [TAB]
                   @ ''2000-02-28 13:03:30+00:00'' @ [LF]),
          Write (''SetAccessTime'' @ [TAB] @ ''/work/test.txt'' @ [TAB]
                   @ ''2000-02-28 13:03:30+00:00'' @ [LF]),
          Close],
       response = []\<rparr>)"
proof -
  have h1: "4 \<le> length (sys_argv set_env)" by code_simp
  have h2: "sys_argv set_env ! 2 = ''-ma''" by code_simp
  have h3: "isfile set_env (sys_argv set_env ! 1)" by code_simp
  have h4: "launches set_env" by code_simp
  have h5: "returncode set_env = 0" by code_simp
  have h6: "strptime set_env (sys_argv set_env ! 3)
              = Some (mk_datetime 2000 2 28 13 3 30 0 (Some 0))"
    by code_simp
  have h7: "take_line (child_output set_env) = (''ok'' @ [LF], ''ok'' @ [LF])" by code_simp
  have g: "utf8_decode (''ok'' @ [LF]) = Some (ascii_str (''ok'' @ [LF]))" by code_simp
  have h8: "rstrip (ascii_str [CR, LF]) (ascii_str (''ok'' @ [LF])) = ascii_str ''ok''"
    by code_simp
  have h9: "take_line (''ok'' @ [LF]) = (''ok'' @ [LF], [])" by code_simp
  have s: "str_datetime (mk_datetime 2000 2 28 13 3 30 0 (Some 0)) = ''2000-02-28 13:03:30+00:00''"
    by code_simp
  have p: "abspath set_env (sys_argv set_env ! 1) = ''/work/test.txt''" by code_simp
  have e: "EXECUTABLE_PATH = ''WindowsTimestampAccessor.exe''" by code_simp
  from set_ma_run [OF h1 h2 h3 h4 h5 h6 h7 g h8 h9 g h8] show ?thesis
    unfolding s p e .
qed

text \<open>
  Claim C4, on the code.  With a fourth argument that \<open>strptime\<close> rejects, the run ends
  in the uncaught \<open>ValueError\<close> of line 138: \<open>strptime\<close> raises instead of returning a
  false value, so the test of line 139 is never reached and the usage text is not
  printed.
\<close>

theorem bad_date_run_raises:
  "main bad_date_env =
     (Inl ValueError,
      \<lparr>trace = [Popen ''WindowsTimestampAccessor.exe'', Print ''DEBUG: made it here'', Close],
       response = ''ok'' @ [LF] @ ''ok'' @ [LF]\<rparr>)"
  by code_simp

text \<open>
  Claim C3, as stated, fails: with the flag token \<open>-x\<close> the accessor executable has
  already been launched when the usage text is printed.
\<close>

theorem unknown_flag_launches_accessor:
  "trace (snd (main unknown_flag_env)) =
     [Popen ''WindowsTimestampAccessor.exe'',
      Print ''DEBUG: made it here'',
      Print ''usage:   ./timestomp.py path -[pmacb] [%Y/%m/%d %H:%M:%S %z]'',
      Print ''example: ./timestomp.py test.txt -ma 2000/02/28 13:03:30 UTC'',
      Close]"
  by code_simp

text \<open>
  Claim C3, amended.  \<open>main\<close> launches the accessor before it looks at the command line.
  Once it is launched, every invocation with at least a path and a flag token, whose
  flag token is not a dash followed by letters from \<open>pmacb\<close> only, prints the usage
  text, writes nothing to the accessor, closes it, and exits with status 1 (through
  \<open>sys.exit(1)\<close>, or through the \<open>CalledProcessError\<close> of \<open>close\<close> when the child's exit
  code is not 0).
\<close>

theorem unknown_flag_run:
  assumes "3 \<le> length (sys_argv env)"
      and "\<not> startswith (sys_argv env ! 2) ''-'' \<or>
           \<not> set (drop 1 (sys_argv env ! 2)) \<subseteq> set ''pmacb''"
      and "launches env"
  shows "main env =
           (Inl (if returncode env = 0 then SystemExit 1
                 else CalledProcessError (returncode env)),
            \<lparr>trace =
               Popen EXECUTABLE_PATH
               # (if isfile env (sys_argv env ! 1) \<and> startswith (sys_argv env ! 2) ''-''
                  then [Print ''DEBUG: made it here''] else [])
               @ [Print USAGE_LINE, Print EXAMPLE_LINE, Close],
             response = child_output env\<rparr>) \<and>
         written (snd (main env)) = [] \<and>
         exit_status (fst (main env)) = 1"
proof -
  let ?w0 = "\<lparr>trace = [Popen EXECUTABLE_PATH], response = child_output env\<rparr>"
  have body: "main_body env ?w0 =
           (Inl (SystemExit 1),
            \<lparr>trace =
               Popen EXECUTABLE_PATH
               # (if isfile env (sys_argv env ! 1) \<and> startswith (sys_argv env ! 2) ''-''
                  then [Print ''DEBUG: made it here''] else [])
               @ [Print USAGE_LINE, Print EXAMPLE_LINE],
             response = child_output env\<rparr>)"
    using assms(1,2)
    by (auto simp: main_body_def Let_def usage_run io_bind_print io_bind_check
        simp del: One_nat_def)
  have m: "main env =
           (Inl (if returncode env = 0 then SystemExit 1
                 else CalledProcessError (returncode env)),
            \<lparr>trace =
               Popen EXECUTABLE_PATH
               # (if isfile env (sys_argv env ! 1) \<and> startswith (sys_argv env ! 2) ''-''
                  then [Print ''DEBUG: made it here''] else [])
               @ [Print USAGE_LINE, Print EXAMPLE_LINE, Close],
             response = child_output env\<rparr>)"
    using assms(3)
    by (simp add: main_def accessor_init_def accessor_close_def emit_def body)
  show ?thesis
    unfolding m by (simp add: written_def exit_status_def)
qed

theorem unknown_flag_run_witness:
  "fst (main unknown_flag_env) = Inl (SystemExit 1) \<and>
   written (snd (main unknown_flag_env)) = [] \<and>
   exit_status (fst (main unknown_flag_env)) = 1"
proof -
  have h1: "3 \<le> length (sys_argv unknown_flag_env)" by code_simp
  have h2: "\<not> startswith (sys_argv unknown_flag_env ! 2) ''-'' \<or>
            \<not> set (drop 1 (sys_argv unknown_flag_env ! 2)) \<subseteq> set ''pmacb''"
    by code_simp
  have h3: "launches unknown_flag_env" by code_simp
  have rc: "returncode unknown_flag_env = 0" by code_simp
  note r = unknown_flag_run [OF h1 h2 h3]
  have a: "fst (main unknown_flag_env) = Inl (SystemExit 1)"
    using r [THEN conjunct1] rc by simp
  from a r [THEN conjunct2] show ?thesis
    by (rule conjI)
qed

end
